theory Spec2Isabelle
  imports Main "HOL-Library.Sublist"
begin

section \<open>Python values\<close>

text \<open>
  A Python \<open>str\<close> is a sequence of Unicode code points; it is modelled as the list of
  these code points, so that the non-ASCII literals of \<open>run.py\<close> are written out by their
  code points.  \<open>ascii\<close> turns an ASCII literal into such a string.
\<close>

type_synonym pystr = "nat list"

definition ascii :: "string \<Rightarrow> pystr" where
  "ascii s = map of_char s"

text \<open>
  The value \<open>request.get_json\<close> hands to the program: \<open>None\<close>, \<open>bool\<close>, a number,
  \<open>str\<close>, \<open>list\<close> or \<open>dict\<close>.  The program never looks inside a number, so its
  representation is the type parameter.  A \<open>dict\<close> is the list of its items in insertion
  order (a Python dict has no two items with the same key).
\<close>

datatype 'n json =
    JNull
  | JBool bool
  | JNum 'n
  | JStr pystr
  | JArr "'n json list"
  | JObj "(pystr \<times> 'n json) list"

text \<open>
  Exceptions.  The first six are raised by the interpreter or by \<open>run.py\<close> itself,
  \<open>ValidationError\<close> by \<open>jsonschema.validate\<close>.  \<open>Foreign k m\<close> is an exception
  raised inside a collaborator (the Misskey client, the file system): \<open>m\<close> is
  \<open>str(e)\<close> and \<open>k\<close> says which \<open>except\<close> clause of \<open>github_webhook\<close> its
  class falls under.
\<close>

datatype exn_kind = IsKeyError | IsValueError | IsConnectionError | IsPermissionError | IsOther

datatype exn =
    KeyError pystr
  | TypeError
  | AttributeError
  | ValueError pystr
  | ConnectionError pystr
  | PermissionError pystr
  | ValidationError
  | Foreign exn_kind pystr

fun kind_of :: "exn \<Rightarrow> exn_kind" where
  "kind_of (KeyError k) = IsKeyError"
| "kind_of TypeError = IsOther"
| "kind_of AttributeError = IsOther"
| "kind_of (ValueError m) = IsValueError"
| "kind_of (ConnectionError m) = IsConnectionError"
| "kind_of (PermissionError m) = IsPermissionError"
| "kind_of ValidationError = IsOther"
| "kind_of (Foreign k m) = k"

text \<open>\<open>d[k]\<close>: only a dict can be subscripted with a string.\<close>

fun subscript :: "'n json \<Rightarrow> pystr \<Rightarrow> exn + 'n json" where
  "subscript (JObj kvs) k = (case map_of kvs k of None \<Rightarrow> Inl (KeyError k) | Some v \<Rightarrow> Inr v)"
| "subscript _ k = Inl TypeError"

text \<open>\<open>d.get(k, default)\<close>: only a dict has the method \<open>get\<close>.\<close>

fun dict_get :: "'n json \<Rightarrow> pystr \<Rightarrow> 'n json \<Rightarrow> exn + 'n json" where
  "dict_get (JObj kvs) k dflt = (case map_of kvs k of None \<Rightarrow> Inr dflt | Some v \<Rightarrow> Inr v)"
| "dict_get _ k dflt = Inl AttributeError"

text \<open>
  \<open>for x in v\<close>: a list yields its elements, a string its characters, a dict its keys;
  nothing else can be iterated.
\<close>

fun iterate :: "'n json \<Rightarrow> exn + 'n json list" where
  "iterate (JArr vs) = Inr vs"
| "iterate (JStr s) = Inr (map (\<lambda>c. JStr [c]) s)"
| "iterate (JObj kvs) = Inr (map (\<lambda>kv. JStr (fst kv)) kvs)"
| "iterate _ = Inl TypeError"

text \<open>
  A replacement field \<open>{v}\<close> of an f-string: a \<open>str\<close> is inserted as it is, any other
  value as Python's built-in \<open>str(v)\<close>, which is the parameter \<open>py_str\<close>.
\<close>

fun fstr :: "('n json \<Rightarrow> pystr) \<Rightarrow> 'n json \<Rightarrow> pystr" where
  "fstr py_str (JStr s) = s"
| "fstr py_str v = py_str v"

text \<open>\<open>needle in s\<close> on strings.\<close>

fun str_contains :: "pystr \<Rightarrow> pystr \<Rightarrow> bool" where
  "str_contains needle [] = (needle = [])"
| "str_contains needle (c # cs) = (prefix needle (c # cs) \<or> str_contains needle cs)"

section \<open>The text formatter\<close>

definition notice :: pystr where
  "notice = [0x6587, 0x6863, 0x5DF2, 0x66F4, 0x65B0, 0xFF5E, 0x6784, 0x5EFA, 0x53EF, 0x80FD,
     0x8FD8, 0x9700, 0x8981, 0x4E00, 0x6BB5, 0x65F6, 0x95F4, 0xFF0C, 0x8BF7, 0x8010, 0x5FC3,
     0x7B49, 0x5F85, 0x5B8C, 0x6210, 0xFF0C, 0x9884, 0x8BA1] @ ascii ''1~5'' @ [0x5206, 0x949F]
     @ ascii '':x11:'' @ [10, 10]"

definition log_label :: pystr where
  "log_label = [0x66F4, 0x65B0, 0x65E5, 0x5FD7] @ ascii '': ''"

definition author_label :: pystr where
  "author_label = [0x66F4, 0x65B0, 0x4F5C, 0x8005] @ ascii '': ''"

definition files_header :: pystr where
  "files_header = [0x6587, 0x4EF6, 0x53D8, 0x5316, 0xFF08, 0x8BE5, 0x63D0, 0x4EA4, 0x4E2D,
     0x4FEE, 0x6539, 0x3001, 0x65B0, 0x589E, 0x548C, 0x5220, 0x9664, 0x7684, 0x6587, 0x4EF6,
     0xFF09] @ ascii '':'' @ [10]"

definition fence :: pystr where
  "fence = ascii ''```'' @ [10]"

definition tag_modified :: pystr where
  "tag_modified = ascii ''  ['' @ [0x4FEE, 0x6539] @ ascii ''] ''"

definition tag_added :: pystr where
  "tag_added = ascii ''  ['' @ [0x65B0, 0x589E] @ ascii ''] ''"

definition tag_removed :: pystr where
  "tag_removed = ascii ''  ['' @ [0x5220, 0x9664] @ ascii ''] ''"

definition too_many_commits :: pystr where
  "too_many_commits = [0x63D0, 0x4EA4, 0x6570, 0x91CF, 0x8D85, 0x8FC7, 0x9650, 0x5236]"

text \<open>
  One of the inner loops \<open>for file in files: all_info_text += f"<tag>{file}\n"\<close>,
  started with the text built so far.
\<close>

fun file_loop :: "('n json \<Rightarrow> pystr) \<Rightarrow> pystr \<Rightarrow> pystr \<Rightarrow> 'n json list \<Rightarrow> pystr" where
  "file_loop py_str tag all_info_text [] = all_info_text"
| "file_loop py_str tag all_info_text (file # files) =
     file_loop py_str tag (all_info_text @ tag @ fstr py_str file @ [10]) files"

definition for_files ::
  "('n json \<Rightarrow> pystr) \<Rightarrow> pystr \<Rightarrow> pystr \<Rightarrow> 'n json \<Rightarrow> exn + pystr" where
  "for_files py_str tag all_info_text files =
     (case iterate files of
        Inl e \<Rightarrow> Inl e
      | Inr fs \<Rightarrow> Inr (file_loop py_str tag all_info_text fs))"

text \<open>
  The body of the loop over the commits: from the text built so far to the text after
  this commit, or the exception that leaves the loop.
\<close>

definition commit_step ::
  "('n json \<Rightarrow> pystr) \<Rightarrow> pystr \<Rightarrow> 'n json \<Rightarrow> exn + pystr" where
  "commit_step py_str all_info_text commit =
     (let t1 = all_info_text @ notice in
      case subscript commit (ascii ''message'') of
        Inl e \<Rightarrow> Inl e
      | Inr message \<Rightarrow>
     (let t2 = t1 @ log_label @ fstr py_str message @ [10] in
      case subscript commit (ascii ''author'') of
        Inl e \<Rightarrow> Inl e
      | Inr author \<Rightarrow>
     (case subscript author (ascii ''name'') of
        Inl e \<Rightarrow> Inl e
      | Inr name \<Rightarrow>
     (let t3 = t2 @ author_label @ fstr py_str name @ [10];
          t4 = t3 @ files_header;
          t5 = t4 @ fence in
      case dict_get commit (ascii ''modified'') (JArr []) of
        Inl e \<Rightarrow> Inl e
      | Inr modified_files \<Rightarrow>
     (case dict_get commit (ascii ''added'') (JArr []) of
        Inl e \<Rightarrow> Inl e
      | Inr added_files \<Rightarrow>
     (case dict_get commit (ascii ''removed'') (JArr []) of
        Inl e \<Rightarrow> Inl e
      | Inr removed_files \<Rightarrow>
     (case for_files py_str tag_modified t5 modified_files of
        Inl e \<Rightarrow> Inl e
      | Inr t6 \<Rightarrow>
     (case for_files py_str tag_added t6 added_files of
        Inl e \<Rightarrow> Inl e
      | Inr t7 \<Rightarrow>
     (case for_files py_str tag_removed t7 removed_files of
        Inl e \<Rightarrow> Inl e
      | Inr t8 \<Rightarrow> Inr (t8 @ fence))))))))))"

fun commit_loop ::
  "('n json \<Rightarrow> pystr) \<Rightarrow> pystr \<Rightarrow> 'n json list \<Rightarrow> exn + pystr" where
  "commit_loop py_str all_info_text [] = Inr all_info_text"
| "commit_loop py_str all_info_text (commit # commits) =
     (case commit_step py_str all_info_text commit of
        Inl e \<Rightarrow> Inl e
      | Inr t \<Rightarrow> commit_loop py_str t commits)"

text \<open>\<open>len(v)\<close>.\<close>

fun py_len :: "'n json \<Rightarrow> exn + nat" where
  "py_len (JArr vs) = Inr (length vs)"
| "py_len (JStr s) = Inr (length s)"
| "py_len (JObj kvs) = Inr (length kvs)"
| "py_len _ = Inl TypeError"

definition build_commit_info_text ::
  "('n json \<Rightarrow> pystr) \<Rightarrow> 'n json \<Rightarrow> exn + pystr" where
  "build_commit_info_text py_str commits =
     (case py_len commits of
        Inl e \<Rightarrow> Inl e
      | Inr n \<Rightarrow>
          if n > 100 then Inl (ValueError too_many_commits)
          else (case iterate commits of
                  Inl e \<Rightarrow> Inl e
                | Inr cs \<Rightarrow> commit_loop py_str [] cs))"

section \<open>The schema of a push event\<close>

text \<open>
  \<open>push_event_schema\<close> uses three keywords of JSON Schema: \<open>type\<close> (with the values
  \<open>object\<close>, \<open>string\<close> and \<open>array\<close>), \<open>properties\<close> and \<open>required\<close>.  A schema is
  modelled by these three; \<open>conforms\<close> is what \<open>jsonschema\<close> checks for them:
  \<open>properties\<close> and \<open>required\<close> constrain objects only, and a property that is absent
  is not checked.
\<close>

datatype json_type = TObject | TString | TArray

datatype schema =
  Schema (type_kw: "json_type option") (properties_kw: "(pystr \<times> schema) list")
    (required_kw: "pystr list")

definition push_event_schema :: schema where
  "push_event_schema =
     Schema (Some TObject)
       [(ascii ''repository'',
           Schema (Some TObject) [(ascii ''name'', Schema (Some TString) [] [])]
             [ascii ''name'']),
        (ascii ''ref'', Schema (Some TString) [] []),
        (ascii ''commits'', Schema (Some TArray) [] [])]
       [ascii ''repository'', ascii ''ref'', ascii ''commits'']"

fun has_type :: "'n json \<Rightarrow> json_type \<Rightarrow> bool" where
  "has_type (JObj kvs) TObject = True"
| "has_type (JStr s) TString = True"
| "has_type (JArr vs) TArray = True"
| "has_type _ _ = False"

fun conforms :: "'n json \<Rightarrow> schema \<Rightarrow> bool" where
  "conforms inst (Schema ty props req) =
     ((case ty of None \<Rightarrow> True | Some t \<Rightarrow> has_type inst t) \<and>
      (case inst of
         JObj kvs \<Rightarrow>
           list_all (\<lambda>(k, sub). case map_of kvs k of None \<Rightarrow> True | Some v \<Rightarrow> conforms v sub)
             props \<and>
           list_all (\<lambda>k. map_of kvs k \<noteq> None) req
       | _ \<Rightarrow> True))"

text \<open>\<open>validate(instance, schema)\<close> raises \<open>ValidationError\<close> or returns nothing.\<close>

definition validate :: "'n json \<Rightarrow> schema \<Rightarrow> exn + unit" where
  "validate inst sch = (if conforms inst sch then Inr () else Inl ValidationError)"

section \<open>Collaborators and their effects\<close>

text \<open>
  What the program cannot decide itself is a parameter: Python's \<open>str()\<close>
  (\<open>str_builtin\<close>) and \<open>str.lower()\<close> (\<open>str_lower\<close>), and the outcome of the three
  calls into collaborators, each \<open>None\<close> when the call returns and \<open>Some (k, m)\<close>
  when it raises an exception of kind \<open>k\<close> with \<open>str(e) = m\<close>:
  \<^item> \<open>misskey_new\<close>: \<open>Misskey(misskey_url, i=access_token)\<close>, with the URL and the
    token of the process environment;
  \<^item> \<open>notes_create text\<close>: \<open>api.notes_create(text=text)\<close>;
  \<^item> \<open>file_append text\<close>: opening \<open>github_push_info.txt\<close> in append mode and writing
    \<open>text\<close> to it.
\<close>

record 'n env =
  str_builtin :: "'n json \<Rightarrow> pystr"
  str_lower :: "pystr \<Rightarrow> pystr"
  misskey_new :: "(exn_kind \<times> pystr) option"
  notes_create :: "pystr \<Rightarrow> (exn_kind \<times> pystr) option"
  file_append :: "pystr \<Rightarrow> (exn_kind \<times> pystr) option"

text \<open>
  The calls a request makes, in the order it makes them: the schema validator, the text
  formatter and the three calls into collaborators.  Log output is not modelled.
\<close>

datatype 'n effect =
    Validate "'n json"
  | BuildText "'n json"
  | MisskeyNew
  | NotesCreate pystr
  | FileAppend pystr

definition connection_failed :: pystr where
  "connection_failed = [0x4E0E] @ ascii ''Misskey'' @ [0x5E73, 0x53F0, 0x8FDE, 0x63A5, 0x5931,
     0x8D25, 0xFF0C, 0x8BF7, 0x68C0, 0x67E5, 0x7F51, 0x7EDC, 0x8BBE, 0x7F6E]"

definition permission_failed :: pystr where
  "permission_failed = ascii ''Misskey'' @ [0x5E73, 0x53F0, 0x8BBF, 0x95EE, 0x6743, 0x9650,
     0x9A8C, 0x8BC1, 0x5931, 0x8D25, 0xFF0C, 0x8BF7, 0x68C0, 0x67E5, 0x8BBF, 0x95EE, 0x4EE4,
     0x724C, 0x662F, 0x5426, 0x6B63, 0x786E]"

definition push_info_to_misskey :: "'n env \<Rightarrow> pystr \<Rightarrow> (exn + unit) \<times> 'n effect list" where
  "push_info_to_misskey env all_info_text =
     (case misskey_new env of
        Some (k, m) \<Rightarrow> (Inl (Foreign k m), [MisskeyNew])
      | None \<Rightarrow>
          (case notes_create env all_info_text of
             None \<Rightarrow> (Inr (), [MisskeyNew, NotesCreate all_info_text])
           | Some (k, m) \<Rightarrow>
               (if str_contains (ascii ''network'') (str_lower env m)
                  then Inl (ConnectionError connection_failed)
                else if str_contains (ascii ''permission'') (str_lower env m)
                  then Inl (PermissionError permission_failed)
                else Inl (Foreign k m),
                [MisskeyNew, NotesCreate all_info_text])))"

definition save_info_to_file :: "'n env \<Rightarrow> pystr \<Rightarrow> (exn + unit) \<times> 'n effect list" where
  "save_info_to_file env all_info_text =
     (case file_append env all_info_text of
        None \<Rightarrow> (Inr (), [FileAppend all_info_text])
      | Some (k, m) \<Rightarrow> (Inl (Foreign k m), [FileAppend all_info_text]))"

section \<open>The handlers\<close>

text \<open>
  \<open>repo_name\<close> and \<open>branch_name\<close> are only logged; what is kept of their computation
  is where it can raise: \<open>.get\<close> on a value that is no dict, \<open>.split\<close> on a value that
  is no string (\<open>split\<close> never returns an empty list, so \<open>[-1]\<close> does not raise).
\<close>

definition handle_github_push_event ::
  "'n env \<Rightarrow> 'n json \<Rightarrow> (exn + unit) \<times> 'n effect list" where
  "handle_github_push_event env data =
     (case dict_get data (ascii ''repository'') (JObj []) of
        Inl e \<Rightarrow> (Inl e, [])
      | Inr repository \<Rightarrow>
     (case dict_get repository (ascii ''name'') JNull of
        Inl e \<Rightarrow> (Inl e, [])
      | Inr repo_name \<Rightarrow>
     (case dict_get data (ascii ''ref'') JNull of
        Inl e \<Rightarrow> (Inl e, [])
      | Inr ref \<Rightarrow>
     (case ref of
        JStr s \<Rightarrow>
          (case dict_get data (ascii ''commits'') (JArr []) of
             Inl e \<Rightarrow> (Inl e, [])
           | Inr commits \<Rightarrow>
          (case build_commit_info_text (str_builtin env) commits of
             Inl e \<Rightarrow> (Inl e, [BuildText commits])
           | Inr all_info_text \<Rightarrow>
          (case push_info_to_misskey env all_info_text of
             (Inl e, tr) \<Rightarrow> (Inl e, BuildText commits # tr)
           | (Inr u, tr) \<Rightarrow>
          (case save_info_to_file env all_info_text of
             (r, tr') \<Rightarrow> (r, BuildText commits # tr @ tr')))))
      | _ \<Rightarrow> (Inl AttributeError, [])))))"

text \<open>The pull-request handler writes one log line.\<close>

definition handle_github_pull_request_event ::
  "'n json \<Rightarrow> (exn + unit) \<times> 'n effect list" where
  "handle_github_pull_request_event data = (Inr (), [])"

section \<open>Requests and responses\<close>

text \<open>
  Of a request the handler reads the method, the header \<open>X-GitHub-Event\<close> and the body
  through \<open>get_json(silent=True)\<close>; \<open>json_body\<close> is \<open>None\<close> when the body does not
  parse as JSON.
\<close>

record 'n request =
  req_method :: string
  x_github_event :: "pystr option"
  json_body :: "'n json option"

definition get_json_silent :: "'n request \<Rightarrow> 'n json" where
  "get_json_silent req = (case json_body req of None \<Rightarrow> JNull | Some v \<Rightarrow> v)"

text \<open>
  The \<open>detail\<close> of an error body is a literal or \<open>str(e)\<close> of the exception caught,
  kept as that exception.
\<close>

datatype detail = Text pystr | StrOf exn

record response =
  http_status :: nat
  body_status :: string
  body_message :: "pystr option"
  body_detail :: "detail option"
  body_error_code :: "string option"

definition generate_error_response ::
  "nat \<Rightarrow> pystr \<Rightarrow> detail \<Rightarrow> string option \<Rightarrow> response" where
  "generate_error_response status_code message detail error_code =
     \<lparr>http_status = status_code, body_status = ''error'', body_message = Some message,
      body_detail = Some detail,
      body_error_code =
        (case error_code of None \<Rightarrow> None | Some c \<Rightarrow> if c = [] then None else Some c)\<rparr>"

definition success :: response where
  "success = \<lparr>http_status = 200, body_status = ''success'', body_message = None,
     body_detail = None, body_error_code = None\<rparr>"

definition method_not_allowed :: response where
  "method_not_allowed = \<lparr>http_status = 405, body_status = ''method not allowed'',
     body_message = None, body_detail = None, body_error_code = None\<rparr>"

definition msg_invalid_json :: pystr where
  "msg_invalid_json = [0x8BF7, 0x6C42, 0x4F53, 0x6570, 0x636E, 0x4E0D, 0x662F, 0x5408, 0x6CD5,
     0x7684] @ ascii ''JSON'' @ [0x683C, 0x5F0F]"

definition detail_invalid_json :: pystr where
  "detail_invalid_json = [0x65E0, 0x6CD5, 0x5C06, 0x8BF7, 0x6C42, 0x4F53, 0x89E3, 0x6790,
     0x4E3A] @ ascii ''JSON'' @ [0x683C, 0x5F0F]"

definition msg_invalid_schema :: pystr where
  "msg_invalid_schema = [0x8BF7, 0x6C42, 0x4F53, 0x6570, 0x636E, 0x683C, 0x5F0F, 0x4E0D,
     0x7B26, 0x5408, 0x8981, 0x6C42]"

definition msg_key_missing :: pystr where
  "msg_key_missing = [0x5904, 0x7406, 0x63A8, 0x9001, 0x4E8B, 0x4EF6, 0x952E, 0x4E0D, 0x5B58,
     0x5728, 0x9519, 0x8BEF]"

definition msg_value_error :: pystr where
  "msg_value_error = [0x63D0, 0x4EA4, 0x6570, 0x91CF, 0x5F02, 0x5E38]"

definition msg_connection_error :: pystr where
  "msg_connection_error = [0x4E0E] @ ascii ''Misskey'' @ [0x5E73, 0x53F0, 0x8FDE, 0x63A5,
     0x5931, 0x8D25]"

definition msg_permission_error :: pystr where
  "msg_permission_error = ascii ''Misskey'' @ [0x5E73, 0x53F0, 0x8BBF, 0x95EE, 0x6743, 0x9650,
     0x9A8C, 0x8BC1, 0x5931, 0x8D25]"

definition msg_general_error :: pystr where
  "msg_general_error = [0x5904, 0x7406, 0x63A8, 0x9001, 0x4E8B, 0x4EF6, 0x5931, 0x8D25]"

definition msg_pull_request_error :: pystr where
  "msg_pull_request_error = [0x5904, 0x7406, 0x62C9, 0x53D6, 0x8BF7, 0x6C42, 0x4E8B, 0x4EF6,
     0x5931, 0x8D25]"

text \<open>
  The \<open>except\<close> clauses around \<open>handle_github_push_event\<close>, tried in the order of
  the source.
\<close>

definition push_error_response :: "exn \<Rightarrow> response" where
  "push_error_response e =
     (case kind_of e of
        IsKeyError \<Rightarrow>
          generate_error_response 500 msg_key_missing (StrOf e) (Some ''KEY_MISSING'')
      | IsValueError \<Rightarrow>
          generate_error_response 400 msg_value_error (StrOf e) (Some ''VALUE_ERROR'')
      | IsConnectionError \<Rightarrow>
          generate_error_response 500 msg_connection_error (StrOf e) (Some ''CONNECTION_ERROR'')
      | IsPermissionError \<Rightarrow>
          generate_error_response 500 msg_permission_error (StrOf e) (Some ''PERMISSION_ERROR'')
      | IsOther \<Rightarrow>
          generate_error_response 500 msg_general_error (StrOf e) (Some ''GENERAL_ERROR''))"

definition github_webhook :: "'n env \<Rightarrow> 'n request \<Rightarrow> response \<times> 'n effect list" where
  "github_webhook env req =
     (if req_method req = ''POST'' then
        (let data = get_json_silent req in
         if data = JNull then
           (generate_error_response 400 msg_invalid_json (Text detail_invalid_json)
              (Some ''INVALID_JSON''), [])
         else
           (case validate data push_event_schema of
              Inl ve \<Rightarrow>
                (generate_error_response 400 msg_invalid_schema (StrOf ve)
                   (Some ''INVALID_SCHEMA''), [Validate data])
            | Inr u \<Rightarrow>
                (let event_type = x_github_event req in
                 if event_type = Some (ascii ''push'') then
                   (case handle_github_push_event env data of
                      (Inl e, tr) \<Rightarrow> (push_error_response e, Validate data # tr)
                    | (Inr u, tr) \<Rightarrow> (success, Validate data # tr))
                 else if event_type = Some (ascii ''pull_request'') then
                   (case handle_github_pull_request_event data of
                      (Inl e, tr) \<Rightarrow>
                        (generate_error_response 500 msg_pull_request_error (StrOf e)
                           (Some ''PULL_REQUEST_ERROR''), Validate data # tr)
                    | (Inr u, tr) \<Rightarrow> (success, Validate data # tr))
                 else (success, [Validate data]))))
      else (method_not_allowed, []))"

section \<open>The properties in the words of the specification\<close>

text \<open>The value of a key of a JSON object, if the value is an object and has the key.\<close>

fun lookup :: "'n json \<Rightarrow> pystr \<Rightarrow> 'n json option" where
  "lookup (JObj kvs) k = map_of kvs k"
| "lookup _ k = None"

text \<open>
  A commit as the data model of the specification has it: an object with a
  \<open>message\<close> and an \<open>author\<close> that is an object with a \<open>name\<close>; each of
  \<open>modified\<close>, \<open>added\<close> and \<open>removed\<close> is absent or a sequence.
\<close>

definition file_list_ok :: "'n json \<Rightarrow> pystr \<Rightarrow> bool" where
  "file_list_ok commit k =
     (case lookup commit k of None \<Rightarrow> True | Some (JArr fs) \<Rightarrow> True | Some _ \<Rightarrow> False)"

definition well_formed_commit :: "'n json \<Rightarrow> bool" where
  "well_formed_commit commit =
     (lookup commit (ascii ''message'') \<noteq> None \<and>
      (case lookup commit (ascii ''author'') of
         None \<Rightarrow> False
       | Some author \<Rightarrow> lookup author (ascii ''name'') \<noteq> None) \<and>
      file_list_ok commit (ascii ''modified'') \<and>
      file_list_ok commit (ascii ''added'') \<and>
      file_list_ok commit (ascii ''removed''))"

text \<open>The files of one kind of change; none when the field is missing.\<close>

definition files_of :: "'n json \<Rightarrow> pystr \<Rightarrow> 'n json list" where
  "files_of commit k = (case lookup commit k of Some (JArr fs) \<Rightarrow> fs | _ \<Rightarrow> [])"

text \<open>One line per file, in the order of the list, each with the tag of its kind.\<close>

definition file_lines :: "('n json \<Rightarrow> pystr) \<Rightarrow> pystr \<Rightarrow> 'n json list \<Rightarrow> pystr" where
  "file_lines py_str tag fs = concat (map (\<lambda>f. tag @ fstr py_str f @ [10]) fs)"

text \<open>
  The block of one commit: the waiting notice, the commit message, the author name and
  the fenced list of files, modified first, then added, then removed.
\<close>

definition commit_block :: "('n json \<Rightarrow> pystr) \<Rightarrow> 'n json \<Rightarrow> pystr" where
  "commit_block py_str commit =
     notice @
     log_label @ fstr py_str (the (lookup commit (ascii ''message''))) @ [10] @
     author_label @
       fstr py_str (the (lookup (the (lookup commit (ascii ''author''))) (ascii ''name''))) @
       [10] @
     files_header @
     fence @
     file_lines py_str tag_modified (files_of commit (ascii ''modified'')) @
     file_lines py_str tag_added (files_of commit (ascii ''added'')) @
     file_lines py_str tag_removed (files_of commit (ascii ''removed'')) @
     fence"

text \<open>
  A JSON object that is not a push event for the schema: \<open>repository\<close>,
  \<open>repository.name\<close>, \<open>ref\<close> or \<open>commits\<close> is missing, or \<open>repository.name\<close> is
  no string, \<open>ref\<close> is no string, or \<open>commits\<close> is no array.
\<close>

definition lacks_push_field :: "(pystr \<times> 'n json) list \<Rightarrow> bool" where
  "lacks_push_field kvs =
     ((case map_of kvs (ascii ''repository'') of
         Some (JObj r) \<Rightarrow> (case map_of r (ascii ''name'') of Some (JStr s) \<Rightarrow> False | _ \<Rightarrow> True)
       | _ \<Rightarrow> True) \<or>
      (case map_of kvs (ascii ''ref'') of Some (JStr s) \<Rightarrow> False | _ \<Rightarrow> True) \<or>
      (case map_of kvs (ascii ''commits'') of Some (JArr cs) \<Rightarrow> False | _ \<Rightarrow> True))"

text \<open>
  A commit that lacks a field the formatter reads by subscript: an object without
  \<open>message\<close>, or with \<open>message\<close> and without \<open>author\<close>, or whose \<open>author\<close> is an
  object without \<open>name\<close>.
\<close>

definition lacks_commit_field :: "'n json \<Rightarrow> bool" where
  "lacks_commit_field commit =
     (case commit of
        JObj kvs \<Rightarrow>
          (case map_of kvs (ascii ''message'') of
             None \<Rightarrow> True
           | Some m \<Rightarrow>
               (case map_of kvs (ascii ''author'') of
                  None \<Rightarrow> True
                | Some (JObj a) \<Rightarrow> map_of a (ascii ''name'') = None
                | Some _ \<Rightarrow> False))
      | _ \<Rightarrow> False)"

text \<open>
  A POST request with the event type \<open>push\<close> whose body is the JSON object \<open>kvs\<close>,
  which passes the validation against \<open>push_event_schema\<close> and has the commits \<open>cs\<close>.
\<close>

definition valid_push :: "'n request \<Rightarrow> (pystr \<times> 'n json) list \<Rightarrow> 'n json list \<Rightarrow> bool" where
  "valid_push req kvs cs =
     (req_method req = ''POST'' \<and>
      x_github_event req = Some (ascii ''push'') \<and>
      json_body req = Some (JObj kvs) \<and>
      conforms (JObj kvs) push_event_schema \<and>
      map_of kvs (ascii ''commits'') = Some (JArr cs))"

text \<open>The formatter gets through a commit without an exception.\<close>

definition formats :: "('n json \<Rightarrow> pystr) \<Rightarrow> 'n json \<Rightarrow> bool" where
  "formats py_str commit = (case commit_step py_str [] commit of Inl e \<Rightarrow> False | Inr t \<Rightarrow> True)"

section \<open>Concrete inputs\<close>

text \<open>
  The examples use requests whose numbers are of type \<open>int\<close>.  \<open>ascii_lower\<close> is
  \<open>str.lower()\<close> on ASCII strings; \<open>example_str\<close> is \<open>str()\<close> on \<open>None\<close> and on the
  booleans, the only values the examples could apply it to.
\<close>

definition ascii_lower :: "pystr \<Rightarrow> pystr" where
  "ascii_lower s = map (\<lambda>c. if 65 \<le> c \<and> c \<le> 90 then c + 32 else c) s"

fun example_str :: "int json \<Rightarrow> pystr" where
  "example_str JNull = ascii ''None''"
| "example_str (JBool b) = (if b then ascii ''True'' else ascii ''False'')"
| "example_str _ = []"

definition sinks_ok :: "int env" where
  "sinks_ok = \<lparr>str_builtin = example_str, str_lower = ascii_lower, misskey_new = None,
     notes_create = (\<lambda>text. None), file_append = (\<lambda>text. None)\<rparr>"

definition post_fails :: "exn_kind \<Rightarrow> pystr \<Rightarrow> int env" where
  "post_fails k m = sinks_ok\<lparr>notes_create := (\<lambda>text. Some (k, m))\<rparr>"

definition push_fields :: "int json list \<Rightarrow> (pystr \<times> int json) list" where
  "push_fields commits =
     [(ascii ''repository'', JObj [(ascii ''name'', JStr (ascii ''docs''))]),
      (ascii ''ref'', JStr (ascii ''refs/heads/main'')),
      (ascii ''commits'', JArr commits)]"

definition push_payload :: "int json list \<Rightarrow> int json" where
  "push_payload commits = JObj (push_fields commits)"

text \<open>
  The body of a pull-request event as GitHub sends it, cut down to four of its fields; like
  every such body it has no \<open>ref\<close> and no \<open>commits\<close>.
\<close>

definition pull_request_payload :: "int json" where
  "pull_request_payload =
     JObj [(ascii ''action'', JStr (ascii ''opened'')),
           (ascii ''number'', JNum 1),
           (ascii ''pull_request'', JObj [(ascii ''title'', JStr (ascii ''Update docs''))]),
           (ascii ''repository'', JObj [(ascii ''name'', JStr (ascii ''docs''))])]"

definition post_request :: "string \<Rightarrow> int json option \<Rightarrow> int request" where
  "post_request event body =
     \<lparr>req_method = ''POST'', x_github_event = Some (ascii event), json_body = body\<rparr>"

definition commit_a :: "int json" where
  "commit_a =
     JObj [(ascii ''message'', JStr (ascii ''A'')),
           (ascii ''author'', JObj [(ascii ''name'', JStr (ascii ''X''))]),
           (ascii ''modified'', JArr [JStr (ascii ''f1'')])]"

definition commit_b :: "int json" where
  "commit_b =
     JObj [(ascii ''message'', JStr (ascii ''B'')),
           (ascii ''author'', JObj [(ascii ''name'', JStr (ascii ''Y''))]),
           (ascii ''added'', JArr [JStr (ascii ''f2'')])]"

definition commit_bare :: "int json" where
  "commit_bare =
     JObj [(ascii ''message'', JStr (ascii ''C'')),
           (ascii ''author'', JObj [(ascii ''name'', JStr (ascii ''Z''))])]"

section \<open>Substrings\<close>

lemma str_contains_sublist: "str_contains needle s = sublist needle s"
  by (induction s) (auto simp: sublist_Cons_right)

lemma str_contains_iff: "str_contains needle s \<longleftrightarrow> (\<exists>a b. s = a @ needle @ b)"
  by (simp add: str_contains_sublist sublist_def)

section \<open>The formatter builds one block per commit\<close>

lemma file_loop_eq:
  "file_loop py tag acc fs = acc @ file_lines py tag fs"
  by (induction fs arbitrary: acc) (simp_all add: file_lines_def)

lemma commit_step_acc:
  "commit_step py acc c =
     (case commit_step py [] c of Inl e \<Rightarrow> Inl e | Inr b \<Rightarrow> Inr (acc @ b))"
  unfolding commit_step_def Let_def
  by (simp add: for_files_def file_loop_eq split: sum.splits)

lemma commit_loop_acc:
  "commit_loop py acc cs =
     (case commit_loop py [] cs of Inl e \<Rightarrow> Inl e | Inr t \<Rightarrow> Inr (acc @ t))"
proof (induction cs arbitrary: acc)
  case Nil
  show ?case by simp
next
  case (Cons c cs)
  show ?case
  proof (cases "commit_step py [] c")
    case (Inl e)
    then show ?thesis using commit_step_acc [of py acc c] by simp
  next
    case (Inr b)
    then have "commit_step py acc c = Inr (acc @ b)"
      using commit_step_acc [of py acc c] by simp
    with Inr show ?thesis
      using Cons.IH [of "acc @ b"] Cons.IH [of b] by (simp split: sum.splits)
  qed
qed

lemma commit_loop_append:
  "commit_loop py acc (xs @ ys) =
     (case commit_loop py acc xs of Inl e \<Rightarrow> Inl e | Inr t \<Rightarrow> commit_loop py t ys)"
  by (induction xs arbitrary: acc) (simp_all split: sum.splits)

lemma build_array:
  "build_commit_info_text py (JArr cs) =
     (if length cs > 100 then Inl (ValueError too_many_commits) else commit_loop py [] cs)"
  by (simp add: build_commit_info_text_def)

lemma get_files:
  assumes "file_list_ok (JObj kvs) k"
  shows "dict_get (JObj kvs) k (JArr []) = Inr (JArr (files_of (JObj kvs) k))"
proof (cases "map_of kvs k")
  case None
  then show ?thesis by (simp add: files_of_def)
next
  case (Some v)
  with assms show ?thesis
    by (cases v) (simp_all add: file_list_ok_def files_of_def)
qed

lemma for_files_array:
  "for_files py tag acc (JArr fs) = Inr (acc @ file_lines py tag fs)"
  by (simp add: for_files_def file_loop_eq)

lemma commit_step_well_formed:
  assumes "well_formed_commit c"
  shows "commit_step py [] c = Inr (commit_block py c)"
proof (cases c)
  case (JObj kvs)
  from assms JObj obtain m a where m: "map_of kvs (ascii ''message'') = Some m"
    and a: "map_of kvs (ascii ''author'') = Some a"
    and n': "lookup a (ascii ''name'') \<noteq> None"
    by (auto simp: well_formed_commit_def split: option.splits)
  from n' obtain akvs n where akvs: "a = JObj akvs"
    and n: "map_of akvs (ascii ''name'') = Some n"
    by (cases a) auto
  from assms JObj have files:
    "file_list_ok (JObj kvs) (ascii ''modified'')"
    "file_list_ok (JObj kvs) (ascii ''added'')"
    "file_list_ok (JObj kvs) (ascii ''removed'')"
    by (simp_all add: well_formed_commit_def)
  show ?thesis
    unfolding JObj commit_step_def commit_block_def Let_def
    by (simp add: m a akvs n get_files [OF files(1)] get_files [OF files(2)]
        get_files [OF files(3)] for_files_array del: dict_get.simps)
qed (use assms in \<open>simp_all add: well_formed_commit_def\<close>)

lemma commit_loop_well_formed:
  "list_all well_formed_commit cs \<Longrightarrow>
   commit_loop py [] cs = Inr (concat (map (commit_block py) cs))"
proof (induction cs)
  case Nil
  show ?case by simp
next
  case (Cons c cs)
  then have step: "commit_step py [] c = Inr (commit_block py c)"
    and rest: "commit_loop py [] cs = Inr (concat (map (commit_block py) cs))"
    by (simp_all add: commit_step_well_formed)
  show ?case
    using step rest commit_loop_acc [of py "commit_block py c" cs] by simp
qed

lemma wf_a: "well_formed_commit commit_a"
  by (simp add: well_formed_commit_def file_list_ok_def commit_a_def ascii_def)

lemma wf_b: "well_formed_commit commit_b"
  by (simp add: well_formed_commit_def file_list_ok_def commit_b_def ascii_def)

lemma wf_bare: "well_formed_commit commit_bare"
  by (simp add: well_formed_commit_def file_list_ok_def commit_bare_def ascii_def)


lemma commit_block_literal:
  "commit_block py =
     (\<lambda>c.
            [0x6587, 0x6863, 0x5DF2, 0x66F4, 0x65B0, 0xFF5E, 0x6784, 0x5EFA, 0x53EF, 0x80FD,
             0x8FD8, 0x9700, 0x8981, 0x4E00, 0x6BB5, 0x65F6, 0x95F4, 0xFF0C, 0x8BF7, 0x8010,
             0x5FC3, 0x7B49, 0x5F85, 0x5B8C, 0x6210, 0xFF0C, 0x9884, 0x8BA1, 0x31, 0x7E, 0x35,
             0x5206, 0x949F, 0x3A, 0x78, 0x31, 0x31, 0x3A, 0xA, 0xA] @
            [0x66F4, 0x65B0, 0x65E5, 0x5FD7, 0x3A, 0x20] @
            fstr py (the (lookup c (ascii ''message''))) @ [0xA] @
            [0x66F4, 0x65B0, 0x4F5C, 0x8005, 0x3A, 0x20] @
            fstr py (the (lookup (the (lookup c (ascii ''author''))) (ascii ''name''))) @ [0xA] @
            [0x6587, 0x4EF6, 0x53D8, 0x5316, 0xFF08, 0x8BE5, 0x63D0, 0x4EA4, 0x4E2D, 0x4FEE,
             0x6539, 0x3001, 0x65B0, 0x589E, 0x548C, 0x5220, 0x9664, 0x7684, 0x6587, 0x4EF6,
             0xFF09, 0x3A, 0xA] @
            [0x60, 0x60, 0x60, 0xA] @
            concat (map (\<lambda>f. [0x20, 0x20, 0x5B, 0x4FEE, 0x6539, 0x5D, 0x20] @ fstr py f @ [0xA])
              (files_of c (ascii ''modified''))) @
            concat (map (\<lambda>f. [0x20, 0x20, 0x5B, 0x65B0, 0x589E, 0x5D, 0x20] @ fstr py f @ [0xA])
              (files_of c (ascii ''added''))) @
            concat (map (\<lambda>f. [0x20, 0x20, 0x5B, 0x5220, 0x9664, 0x5D, 0x20] @ fstr py f @ [0xA])
              (files_of c (ascii ''removed''))) @
            [0x60, 0x60, 0x60, 0xA])"
  by (rule ext)
    (simp add: commit_block_def notice_def log_label_def author_label_def files_header_def
      fence_def tag_modified_def tag_added_def tag_removed_def file_lines_def ascii_def)

text \<open>
  Claim C5.  Applied to a list of at most 100 well-formed commits, the formatter returns the
  concatenation, in the order of the input, of one block per commit.  The block is written
  out by its code points: the waiting notice (U+6587 U+6863 ... \<open>:x11:\<close> and two line
  feeds), \<open>U+66F4 U+65B0 U+65E5 U+5FD7\<close> \<open>": "\<close> and the commit message, \<open>U+66F4 U+65B0
  U+4F5C U+8005\<close> \<open>": "\<close> and the author name, the header of the file list, a fence of three
  backquotes, one line per file, and the closing fence.  The modified files come first, each
  after two spaces and the tag \<open>[U+4FEE U+6539]\<close>, then the added ones with the tag
  \<open>[U+65B0 U+589E]\<close>, then the removed ones with the tag \<open>[U+5220 U+9664]\<close>.  For a
  commit without \<open>modified\<close>, \<open>added\<close> and \<open>removed\<close> the formatter raises nothing and
  the two fences follow each other.  The result is a function of the commits (and of
  Python's \<open>str()\<close>) alone.
\<close>

theorem formatter_blocks:
  assumes "length cs \<le> 100" and "list_all well_formed_commit cs"
  shows "build_commit_info_text py (JArr cs) =
           Inr (concat (map (\<lambda>c.
            [0x6587, 0x6863, 0x5DF2, 0x66F4, 0x65B0, 0xFF5E, 0x6784, 0x5EFA, 0x53EF, 0x80FD,
             0x8FD8, 0x9700, 0x8981, 0x4E00, 0x6BB5, 0x65F6, 0x95F4, 0xFF0C, 0x8BF7, 0x8010,
             0x5FC3, 0x7B49, 0x5F85, 0x5B8C, 0x6210, 0xFF0C, 0x9884, 0x8BA1, 0x31, 0x7E, 0x35,
             0x5206, 0x949F, 0x3A, 0x78, 0x31, 0x31, 0x3A, 0xA, 0xA] @
            [0x66F4, 0x65B0, 0x65E5, 0x5FD7, 0x3A, 0x20] @
            fstr py (the (lookup c (ascii ''message''))) @ [0xA] @
            [0x66F4, 0x65B0, 0x4F5C, 0x8005, 0x3A, 0x20] @
            fstr py (the (lookup (the (lookup c (ascii ''author''))) (ascii ''name''))) @ [0xA] @
            [0x6587, 0x4EF6, 0x53D8, 0x5316, 0xFF08, 0x8BE5, 0x63D0, 0x4EA4, 0x4E2D, 0x4FEE,
             0x6539, 0x3001, 0x65B0, 0x589E, 0x548C, 0x5220, 0x9664, 0x7684, 0x6587, 0x4EF6,
             0xFF09, 0x3A, 0xA] @
            [0x60, 0x60, 0x60, 0xA] @
            concat (map (\<lambda>f. [0x20, 0x20, 0x5B, 0x4FEE, 0x6539, 0x5D, 0x20] @ fstr py f @ [0xA])
              (files_of c (ascii ''modified''))) @
            concat (map (\<lambda>f. [0x20, 0x20, 0x5B, 0x65B0, 0x589E, 0x5D, 0x20] @ fstr py f @ [0xA])
              (files_of c (ascii ''added''))) @
            concat (map (\<lambda>f. [0x20, 0x20, 0x5B, 0x5220, 0x9664, 0x5D, 0x20] @ fstr py f @ [0xA])
              (files_of c (ascii ''removed''))) @
            [0x60, 0x60, 0x60, 0xA]) cs)) \<and>
         (\<forall>c \<in> set cs.
            lookup c (ascii ''modified'') = None \<and> lookup c (ascii ''added'') = None \<and>
            lookup c (ascii ''removed'') = None \<longrightarrow>
            build_commit_info_text py (JArr [c]) =
              Inr (
            [0x6587, 0x6863, 0x5DF2, 0x66F4, 0x65B0, 0xFF5E, 0x6784, 0x5EFA, 0x53EF, 0x80FD,
             0x8FD8, 0x9700, 0x8981, 0x4E00, 0x6BB5, 0x65F6, 0x95F4, 0xFF0C, 0x8BF7, 0x8010,
             0x5FC3, 0x7B49, 0x5F85, 0x5B8C, 0x6210, 0xFF0C, 0x9884, 0x8BA1, 0x31, 0x7E, 0x35,
             0x5206, 0x949F, 0x3A, 0x78, 0x31, 0x31, 0x3A, 0xA, 0xA] @
            [0x66F4, 0x65B0, 0x65E5, 0x5FD7, 0x3A, 0x20] @
            fstr py (the (lookup c (ascii ''message''))) @ [0xA] @
            [0x66F4, 0x65B0, 0x4F5C, 0x8005, 0x3A, 0x20] @
            fstr py (the (lookup (the (lookup c (ascii ''author''))) (ascii ''name''))) @ [0xA] @
            [0x6587, 0x4EF6, 0x53D8, 0x5316, 0xFF08, 0x8BE5, 0x63D0, 0x4EA4, 0x4E2D, 0x4FEE,
             0x6539, 0x3001, 0x65B0, 0x589E, 0x548C, 0x5220, 0x9664, 0x7684, 0x6587, 0x4EF6,
             0xFF09, 0x3A, 0xA] @
            [0x60, 0x60, 0x60, 0xA] @ [0x60, 0x60, 0x60, 0xA]))"
proof
  have "build_commit_info_text py (JArr cs) = Inr (concat (map (commit_block py) cs))"
    using assms by (simp add: build_array commit_loop_well_formed)
  then show "build_commit_info_text py (JArr cs) =
           Inr (concat (map (\<lambda>c.
            [0x6587, 0x6863, 0x5DF2, 0x66F4, 0x65B0, 0xFF5E, 0x6784, 0x5EFA, 0x53EF, 0x80FD,
             0x8FD8, 0x9700, 0x8981, 0x4E00, 0x6BB5, 0x65F6, 0x95F4, 0xFF0C, 0x8BF7, 0x8010,
             0x5FC3, 0x7B49, 0x5F85, 0x5B8C, 0x6210, 0xFF0C, 0x9884, 0x8BA1, 0x31, 0x7E, 0x35,
             0x5206, 0x949F, 0x3A, 0x78, 0x31, 0x31, 0x3A, 0xA, 0xA] @
            [0x66F4, 0x65B0, 0x65E5, 0x5FD7, 0x3A, 0x20] @
            fstr py (the (lookup c (ascii ''message''))) @ [0xA] @
            [0x66F4, 0x65B0, 0x4F5C, 0x8005, 0x3A, 0x20] @
            fstr py (the (lookup (the (lookup c (ascii ''author''))) (ascii ''name''))) @ [0xA] @
            [0x6587, 0x4EF6, 0x53D8, 0x5316, 0xFF08, 0x8BE5, 0x63D0, 0x4EA4, 0x4E2D, 0x4FEE,
             0x6539, 0x3001, 0x65B0, 0x589E, 0x548C, 0x5220, 0x9664, 0x7684, 0x6587, 0x4EF6,
             0xFF09, 0x3A, 0xA] @
            [0x60, 0x60, 0x60, 0xA] @
            concat (map (\<lambda>f. [0x20, 0x20, 0x5B, 0x4FEE, 0x6539, 0x5D, 0x20] @ fstr py f @ [0xA])
              (files_of c (ascii ''modified''))) @
            concat (map (\<lambda>f. [0x20, 0x20, 0x5B, 0x65B0, 0x589E, 0x5D, 0x20] @ fstr py f @ [0xA])
              (files_of c (ascii ''added''))) @
            concat (map (\<lambda>f. [0x20, 0x20, 0x5B, 0x5220, 0x9664, 0x5D, 0x20] @ fstr py f @ [0xA])
              (files_of c (ascii ''removed''))) @
            [0x60, 0x60, 0x60, 0xA]) cs))"
    by (simp only: commit_block_literal)
next
  show "\<forall>c \<in> set cs.
            lookup c (ascii ''modified'') = None \<and> lookup c (ascii ''added'') = None \<and>
            lookup c (ascii ''removed'') = None \<longrightarrow>
            build_commit_info_text py (JArr [c]) =
              Inr (
            [0x6587, 0x6863, 0x5DF2, 0x66F4, 0x65B0, 0xFF5E, 0x6784, 0x5EFA, 0x53EF, 0x80FD,
             0x8FD8, 0x9700, 0x8981, 0x4E00, 0x6BB5, 0x65F6, 0x95F4, 0xFF0C, 0x8BF7, 0x8010,
             0x5FC3, 0x7B49, 0x5F85, 0x5B8C, 0x6210, 0xFF0C, 0x9884, 0x8BA1, 0x31, 0x7E, 0x35,
             0x5206, 0x949F, 0x3A, 0x78, 0x31, 0x31, 0x3A, 0xA, 0xA] @
            [0x66F4, 0x65B0, 0x65E5, 0x5FD7, 0x3A, 0x20] @
            fstr py (the (lookup c (ascii ''message''))) @ [0xA] @
            [0x66F4, 0x65B0, 0x4F5C, 0x8005, 0x3A, 0x20] @
            fstr py (the (lookup (the (lookup c (ascii ''author''))) (ascii ''name''))) @ [0xA] @
            [0x6587, 0x4EF6, 0x53D8, 0x5316, 0xFF08, 0x8BE5, 0x63D0, 0x4EA4, 0x4E2D, 0x4FEE,
             0x6539, 0x3001, 0x65B0, 0x589E, 0x548C, 0x5220, 0x9664, 0x7684, 0x6587, 0x4EF6,
             0xFF09, 0x3A, 0xA] @
            [0x60, 0x60, 0x60, 0xA] @ [0x60, 0x60, 0x60, 0xA])"
  proof (intro ballI impI)
    fix c
    assume c: "c \<in> set cs"
      and none: "lookup c (ascii ''modified'') = None \<and> lookup c (ascii ''added'') = None \<and>
        lookup c (ascii ''removed'') = None"
    from c assms(2) have "well_formed_commit c"
      by (simp add: list_all_iff)
    then have "build_commit_info_text py (JArr [c]) = Inr (commit_block py c)"
      by (simp add: build_array commit_step_well_formed)
    with none show "build_commit_info_text py (JArr [c]) =
              Inr (
            [0x6587, 0x6863, 0x5DF2, 0x66F4, 0x65B0, 0xFF5E, 0x6784, 0x5EFA, 0x53EF, 0x80FD,
             0x8FD8, 0x9700, 0x8981, 0x4E00, 0x6BB5, 0x65F6, 0x95F4, 0xFF0C, 0x8BF7, 0x8010,
             0x5FC3, 0x7B49, 0x5F85, 0x5B8C, 0x6210, 0xFF0C, 0x9884, 0x8BA1, 0x31, 0x7E, 0x35,
             0x5206, 0x949F, 0x3A, 0x78, 0x31, 0x31, 0x3A, 0xA, 0xA] @
            [0x66F4, 0x65B0, 0x65E5, 0x5FD7, 0x3A, 0x20] @
            fstr py (the (lookup c (ascii ''message''))) @ [0xA] @
            [0x66F4, 0x65B0, 0x4F5C, 0x8005, 0x3A, 0x20] @
            fstr py (the (lookup (the (lookup c (ascii ''author''))) (ascii ''name''))) @ [0xA] @
            [0x6587, 0x4EF6, 0x53D8, 0x5316, 0xFF08, 0x8BE5, 0x63D0, 0x4EA4, 0x4E2D, 0x4FEE,
             0x6539, 0x3001, 0x65B0, 0x589E, 0x548C, 0x5220, 0x9664, 0x7684, 0x6587, 0x4EF6,
             0xFF09, 0x3A, 0xA] @
            [0x60, 0x60, 0x60, 0xA] @ [0x60, 0x60, 0x60, 0xA])"
      by (simp add: commit_block_literal files_of_def)
  qed
qed

theorem formatter_blocks_witness:
  "build_commit_info_text example_str (JArr [commit_a, commit_b, commit_bare]) =
     Inr
         [0x6587, 0x6863, 0x5DF2, 0x66F4, 0x65B0, 0xFF5E, 0x6784, 0x5EFA, 0x53EF, 0x80FD,
          0x8FD8, 0x9700, 0x8981, 0x4E00, 0x6BB5, 0x65F6, 0x95F4, 0xFF0C, 0x8BF7, 0x8010,
          0x5FC3, 0x7B49, 0x5F85, 0x5B8C, 0x6210, 0xFF0C, 0x9884, 0x8BA1, 0x31, 0x7E, 0x35,
          0x5206, 0x949F, 0x3A, 0x78, 0x31, 0x31, 0x3A, 0xA, 0xA, 0x66F4, 0x65B0, 0x65E5,
          0x5FD7, 0x3A, 0x20, 0x41, 0xA, 0x66F4, 0x65B0, 0x4F5C, 0x8005, 0x3A, 0x20, 0x58, 0xA,
          0x6587, 0x4EF6, 0x53D8, 0x5316, 0xFF08, 0x8BE5, 0x63D0, 0x4EA4, 0x4E2D, 0x4FEE,
          0x6539, 0x3001, 0x65B0, 0x589E, 0x548C, 0x5220, 0x9664, 0x7684, 0x6587, 0x4EF6,
          0xFF09, 0x3A, 0xA, 0x60, 0x60, 0x60, 0xA, 0x20, 0x20, 0x5B, 0x4FEE, 0x6539, 0x5D,
          0x20, 0x66, 0x31, 0xA, 0x60, 0x60, 0x60, 0xA, 0x6587, 0x6863, 0x5DF2, 0x66F4, 0x65B0,
          0xFF5E, 0x6784, 0x5EFA, 0x53EF, 0x80FD, 0x8FD8, 0x9700, 0x8981, 0x4E00, 0x6BB5,
          0x65F6, 0x95F4, 0xFF0C, 0x8BF7, 0x8010, 0x5FC3, 0x7B49, 0x5F85, 0x5B8C, 0x6210,
          0xFF0C, 0x9884, 0x8BA1, 0x31, 0x7E, 0x35, 0x5206, 0x949F, 0x3A, 0x78, 0x31, 0x31,
          0x3A, 0xA, 0xA, 0x66F4, 0x65B0, 0x65E5, 0x5FD7, 0x3A, 0x20, 0x42, 0xA, 0x66F4, 0x65B0,
          0x4F5C, 0x8005, 0x3A, 0x20, 0x59, 0xA, 0x6587, 0x4EF6, 0x53D8, 0x5316, 0xFF08, 0x8BE5,
          0x63D0, 0x4EA4, 0x4E2D, 0x4FEE, 0x6539, 0x3001, 0x65B0, 0x589E, 0x548C, 0x5220,
          0x9664, 0x7684, 0x6587, 0x4EF6, 0xFF09, 0x3A, 0xA, 0x60, 0x60, 0x60, 0xA, 0x20, 0x20,
          0x5B, 0x65B0, 0x589E, 0x5D, 0x20, 0x66, 0x32, 0xA, 0x60, 0x60, 0x60, 0xA, 0x6587,
          0x6863, 0x5DF2, 0x66F4, 0x65B0, 0xFF5E, 0x6784, 0x5EFA, 0x53EF, 0x80FD, 0x8FD8,
          0x9700, 0x8981, 0x4E00, 0x6BB5, 0x65F6, 0x95F4, 0xFF0C, 0x8BF7, 0x8010, 0x5FC3,
          0x7B49, 0x5F85, 0x5B8C, 0x6210, 0xFF0C, 0x9884, 0x8BA1, 0x31, 0x7E, 0x35, 0x5206,
          0x949F, 0x3A, 0x78, 0x31, 0x31, 0x3A, 0xA, 0xA, 0x66F4, 0x65B0, 0x65E5, 0x5FD7, 0x3A,
          0x20, 0x43, 0xA, 0x66F4, 0x65B0, 0x4F5C, 0x8005, 0x3A, 0x20, 0x5A, 0xA, 0x6587,
          0x4EF6, 0x53D8, 0x5316, 0xFF08, 0x8BE5, 0x63D0, 0x4EA4, 0x4E2D, 0x4FEE, 0x6539,
          0x3001, 0x65B0, 0x589E, 0x548C, 0x5220, 0x9664, 0x7684, 0x6587, 0x4EF6, 0xFF09, 0x3A,
          0xA, 0x60, 0x60, 0x60, 0xA, 0x60, 0x60, 0x60, 0xA]"
proof -
  have len: "length [commit_a, commit_b, commit_bare] \<le> 100" by simp
  have wf: "list_all well_formed_commit [commit_a, commit_b, commit_bare]"
    by (simp add: wf_a wf_b wf_bare)
  from formatter_blocks [OF len wf, of example_str] show ?thesis
    by (simp add: commit_a_def commit_b_def commit_bare_def files_of_def ascii_def)
qed

text \<open>
  Claim C9.  The formatter maps the empty list to the empty string, and for two lists of
  commits with at most 100 commits together, the text of their concatenation is the text of
  the first followed by the text of the second; an exception raised for the first list, or
  else for the second, is the exception raised for the concatenation.
\<close>

theorem formatter_homomorphism:
  "build_commit_info_text py (JArr []) = Inr [] \<and>
   (length xs + length ys \<le> 100 \<longrightarrow>
    build_commit_info_text py (JArr (xs @ ys)) =
      (case build_commit_info_text py (JArr xs) of
         Inl e \<Rightarrow> Inl e
       | Inr a \<Rightarrow>
           (case build_commit_info_text py (JArr ys) of
              Inl e \<Rightarrow> Inl e
            | Inr b \<Rightarrow> Inr (a @ b))))"
proof (intro conjI impI)
  show "build_commit_info_text py (JArr []) = Inr []"
    by (simp add: build_array)
next
  assume len: "length xs + length ys \<le> 100"
  have "commit_loop py [] (xs @ ys) =
          (case commit_loop py [] xs of
             Inl e \<Rightarrow> Inl e
           | Inr a \<Rightarrow> (case commit_loop py [] ys of Inl e \<Rightarrow> Inl e | Inr b \<Rightarrow> Inr (a @ b)))"
  proof (cases "commit_loop py [] xs")
    case (Inl e)
    then show ?thesis by (simp add: commit_loop_append)
  next
    case (Inr a)
    then show ?thesis
      using commit_loop_acc [of py a ys] by (simp add: commit_loop_append)
  qed
  moreover from len have "build_commit_info_text py (JArr (xs @ ys)) = commit_loop py [] (xs @ ys)"
    and "build_commit_info_text py (JArr xs) = commit_loop py [] xs"
    and "build_commit_info_text py (JArr ys) = commit_loop py [] ys"
    by (simp_all add: build_array)
  ultimately show "build_commit_info_text py (JArr (xs @ ys)) =
      (case build_commit_info_text py (JArr xs) of
         Inl e \<Rightarrow> Inl e
       | Inr a \<Rightarrow>
           (case build_commit_info_text py (JArr ys) of
              Inl e \<Rightarrow> Inl e
            | Inr b \<Rightarrow> Inr (a @ b)))"
    by (simp only:)
qed

theorem formatter_homomorphism_witness:
  "length [commit_a] + length [commit_b, commit_bare] \<le> 100 \<and>
   build_commit_info_text example_str (JArr ([commit_a] @ [commit_b, commit_bare])) =
     (case build_commit_info_text example_str (JArr [commit_a]) of
        Inl e \<Rightarrow> Inl e
      | Inr a \<Rightarrow>
          (case build_commit_info_text example_str (JArr [commit_b, commit_bare]) of
             Inl e \<Rightarrow> Inl e
           | Inr b \<Rightarrow> Inr (a @ b)))"
  using formatter_homomorphism [of example_str "[commit_a]" "[commit_b, commit_bare]"]
  by simp

section \<open>Validation against the push schema\<close>

lemma has_type_iff:
  "has_type v TObject = (\<exists>kvs. v = JObj kvs)"
  "has_type v TString = (\<exists>s. v = JStr s)"
  "has_type v TArray = (\<exists>vs. v = JArr vs)"
  by (cases v; simp)+

lemma conforms_push:
  "conforms (JObj kvs) push_event_schema = (\<not> lacks_push_field kvs)"
proof -
  have repo: "(case map_of kvs (ascii ''repository'') of
                 Some (JObj r) \<Rightarrow> (case map_of r (ascii ''name'') of Some (JStr s) \<Rightarrow> False | _ \<Rightarrow> True)
               | _ \<Rightarrow> True) =
              (\<not> (\<exists>r s. map_of kvs (ascii ''repository'') = Some (JObj r) \<and>
                     map_of r (ascii ''name'') = Some (JStr s)))"
    by (simp split: option.split json.split)
  have ref: "(case map_of kvs (ascii ''ref'') of Some (JStr s) \<Rightarrow> False | _ \<Rightarrow> True) =
             (\<not> (\<exists>s. map_of kvs (ascii ''ref'') = Some (JStr s)))"
    by (simp split: option.split json.split)
  have commits: "(case map_of kvs (ascii ''commits'') of Some (JArr cs) \<Rightarrow> False | _ \<Rightarrow> True) =
             (\<not> (\<exists>cs. map_of kvs (ascii ''commits'') = Some (JArr cs)))"
    by (simp split: option.split json.split)
  show ?thesis
    unfolding lacks_push_field_def repo ref commits push_event_schema_def
    by (auto simp: has_type_iff split: option.splits)
qed

section \<open>A push request that passes the validation\<close>

lemma conforms_pushD:
  assumes "conforms (JObj kvs) push_event_schema"
  obtains r n s cs where "map_of kvs (ascii ''repository'') = Some (JObj r)"
    and "map_of r (ascii ''name'') = Some (JStr n)"
    and "map_of kvs (ascii ''ref'') = Some (JStr s)"
    and "map_of kvs (ascii ''commits'') = Some (JArr cs)"
  using assms unfolding push_event_schema_def
  by (auto simp: has_type_iff split: option.splits)

lemma handle_push_valid:
  assumes "conforms (JObj kvs) push_event_schema"
    and "map_of kvs (ascii ''commits'') = Some cv"
  shows "handle_github_push_event env (JObj kvs) =
     (case build_commit_info_text (str_builtin env) cv of
        Inl e \<Rightarrow> (Inl e, [BuildText cv])
      | Inr t \<Rightarrow>
          (case push_info_to_misskey env t of
             (Inl e, tr) \<Rightarrow> (Inl e, BuildText cv # tr)
           | (Inr u, tr) \<Rightarrow>
               (case save_info_to_file env t of (r, tr') \<Rightarrow> (r, BuildText cv # tr @ tr'))))"
proof -
  from assms(1) obtain r n s cs where "map_of kvs (ascii ''repository'') = Some (JObj r)"
    and "map_of r (ascii ''name'') = Some (JStr n)"
    and "map_of kvs (ascii ''ref'') = Some (JStr s)"
    by (rule conforms_pushD)
  with assms(2) show ?thesis
    by (simp add: handle_github_push_event_def)
qed

lemma webhook_valid_push:
  assumes "valid_push req kvs cs"
  shows "github_webhook env req =
     (case handle_github_push_event env (JObj kvs) of
        (Inl e, tr) \<Rightarrow> (push_error_response e, Validate (JObj kvs) # tr)
      | (Inr u, tr) \<Rightarrow> (success, Validate (JObj kvs) # tr))"
  using assms
  by (simp add: valid_push_def github_webhook_def get_json_silent_def validate_def Let_def)

lemma webhook_push_table:
  assumes "valid_push req kvs cs"
  shows "github_webhook env req =
     (case build_commit_info_text (str_builtin env) (JArr cs) of
        Inl e \<Rightarrow> (push_error_response e, [Validate (JObj kvs), BuildText (JArr cs)])
      | Inr t \<Rightarrow>
          (case misskey_new env of
             Some (k, m) \<Rightarrow>
               (push_error_response (Foreign k m),
                [Validate (JObj kvs), BuildText (JArr cs), MisskeyNew])
           | None \<Rightarrow>
               (case notes_create env t of
                  Some (k, m) \<Rightarrow>
                    (push_error_response
                       (if str_contains (ascii ''network'') (str_lower env m)
                          then ConnectionError connection_failed
                        else if str_contains (ascii ''permission'') (str_lower env m)
                          then PermissionError permission_failed
                        else Foreign k m),
                     [Validate (JObj kvs), BuildText (JArr cs), MisskeyNew, NotesCreate t])
                | None \<Rightarrow>
                    (case file_append env t of
                       Some (k, m) \<Rightarrow>
                         (push_error_response (Foreign k m),
                          [Validate (JObj kvs), BuildText (JArr cs), MisskeyNew, NotesCreate t,
                           FileAppend t])
                     | None \<Rightarrow>
                         (success,
                          [Validate (JObj kvs), BuildText (JArr cs), MisskeyNew, NotesCreate t,
                           FileAppend t])))))"
proof -
  from assms have c: "conforms (JObj kvs) push_event_schema"
    and cs: "map_of kvs (ascii ''commits'') = Some (JArr cs)"
    by (simp_all add: valid_push_def)
  show ?thesis
    unfolding webhook_valid_push [OF assms] handle_push_valid [OF c cs]
    by (simp add: push_info_to_misskey_def save_info_to_file_def
        split: sum.split option.split)
qed

lemma push_error_response_neq_success: "push_error_response e \<noteq> success"
  by (simp add: push_error_response_def generate_error_response_def success_def
      split: exn_kind.split)

lemma push_error_response_code:
  "body_error_code (push_error_response e) =
     Some (case kind_of e of
             IsKeyError \<Rightarrow> ''KEY_MISSING''
           | IsValueError \<Rightarrow> ''VALUE_ERROR''
           | IsConnectionError \<Rightarrow> ''CONNECTION_ERROR''
           | IsPermissionError \<Rightarrow> ''PERMISSION_ERROR''
           | IsOther \<Rightarrow> ''GENERAL_ERROR'')"
  by (simp add: push_error_response_def generate_error_response_def split: exn_kind.split)

lemma push_error_response_status:
  "http_status (push_error_response e) = (if kind_of e = IsValueError then 400 else 500)"
  by (simp add: push_error_response_def generate_error_response_def split: exn_kind.split)

lemma valid_push_example:
  "valid_push (post_request ''push'' (Some (push_payload cs))) (push_fields cs) cs"
  by (simp add: valid_push_def post_request_def push_payload_def push_fields_def
      push_event_schema_def ascii_def)

section \<open>Requests rejected before the dispatch\<close>

text \<open>
  Claim C3.  A POST request whose body does not parse as JSON is answered with status 400
  and the error code \<open>INVALID_JSON\<close>, and nothing has been called by then: neither the
  schema validator nor the formatter nor a sink.
\<close>

theorem unparsable_body_rejected:
  assumes "req_method req = ''POST''" and "json_body req = None"
  shows "http_status (fst (github_webhook env req)) = 400 \<and>
         body_error_code (fst (github_webhook env req)) = Some ''INVALID_JSON'' \<and>
         snd (github_webhook env req) = []"
  using assms
  by (simp add: github_webhook_def get_json_silent_def generate_error_response_def)

theorem unparsable_body_rejected_witness:
  "http_status (fst (github_webhook sinks_ok (post_request ''push'' None))) = 400 \<and>
   body_error_code (fst (github_webhook sinks_ok (post_request ''push'' None))) =
     Some ''INVALID_JSON'' \<and>
   snd (github_webhook sinks_ok (post_request ''push'' None)) = []"
proof -
  have m: "req_method (post_request ''push'' None) = ''POST''"
    and b: "json_body (post_request ''push'' None) = None"
    by (simp_all add: post_request_def)
  from unparsable_body_rejected [OF m b, of sinks_ok] show ?thesis .
qed

lemma no_ref_lacks:
  "lacks_push_field [(ascii ''repository'', JObj [(ascii ''name'', JStr (ascii ''docs''))]),
                     (ascii ''commits'', JArr [])]"
  by (simp add: lacks_push_field_def ascii_def)

text \<open>
  Claim C4.  A POST request whose body is a JSON object without \<open>repository\<close>,
  \<open>repository.name\<close>, \<open>ref\<close> or \<open>commits\<close>, or in which \<open>repository.name\<close> or
  \<open>ref\<close> is no string or \<open>commits\<close> is no array, is answered with status 400 and the
  error code \<open>INVALID_SCHEMA\<close>; the validator is all that has been called by then.
\<close>

theorem schema_violation_rejected:
  assumes "req_method req = ''POST''" and "json_body req = Some (JObj kvs)"
    and "lacks_push_field kvs"
  shows "http_status (fst (github_webhook env req)) = 400 \<and>
         body_error_code (fst (github_webhook env req)) = Some ''INVALID_SCHEMA'' \<and>
         snd (github_webhook env req) = [Validate (JObj kvs)]"
  using assms
  by (simp add: github_webhook_def get_json_silent_def validate_def conforms_push
      generate_error_response_def)

theorem schema_violation_rejected_witness:
  "http_status (fst (github_webhook sinks_ok (post_request ''push''
     (Some (JObj [(ascii ''repository'', JObj [(ascii ''name'', JStr (ascii ''docs''))]),
                  (ascii ''commits'', JArr [])]))))) = 400 \<and>
   body_error_code (fst (github_webhook sinks_ok (post_request ''push''
     (Some (JObj [(ascii ''repository'', JObj [(ascii ''name'', JStr (ascii ''docs''))]),
                  (ascii ''commits'', JArr [])]))))) = Some ''INVALID_SCHEMA'' \<and>
   snd (github_webhook sinks_ok (post_request ''push''
     (Some (JObj [(ascii ''repository'', JObj [(ascii ''name'', JStr (ascii ''docs''))]),
                  (ascii ''commits'', JArr [])])))) =
     [Validate (JObj [(ascii ''repository'', JObj [(ascii ''name'', JStr (ascii ''docs''))]),
                  (ascii ''commits'', JArr [])])]"
  by (rule schema_violation_rejected [OF _ _ no_ref_lacks]) (simp_all add: post_request_def)

section \<open>Events other than push\<close>

text \<open>
  Claim C1.  A POST request whose event type is \<open>pull_request\<close>, or any other value than
  \<open>push\<close>, is to be answered with status 200 and \<open>{"status": "success"}\<close> whatever the
  shape of its body.  The code does not do so: it validates every body against
  \<open>push_event_schema\<close> before it reads \<open>X-GitHub-Event\<close>.  The body of a pull-request event
  (an object with \<open>action\<close>, \<open>number\<close>, \<open>pull_request\<close> and \<open>repository\<close>, and with
  neither \<open>ref\<close> nor \<open>commits\<close>) is answered with status 400 and the error code
  \<open>INVALID_SCHEMA\<close>, and \<open>handle_github_pull_request_event\<close> is never called; no sink is
  called either.
\<close>

theorem pull_request_body_rejected:
  "github_webhook sinks_ok (post_request ''pull_request'' (Some pull_request_payload)) =
     (generate_error_response 400 msg_invalid_schema (StrOf ValidationError)
        (Some ''INVALID_SCHEMA''),
      [Validate pull_request_payload]) \<and>
   http_status (fst (github_webhook sinks_ok
     (post_request ''pull_request'' (Some pull_request_payload)))) = 400 \<and>
   body_error_code (fst (github_webhook sinks_ok
     (post_request ''pull_request'' (Some pull_request_payload)))) = Some ''INVALID_SCHEMA'' \<and>
   fst (github_webhook sinks_ok
     (post_request ''pull_request'' (Some pull_request_payload))) \<noteq> success"
  by (simp add: github_webhook_def get_json_silent_def validate_def post_request_def
      pull_request_payload_def push_event_schema_def generate_error_response_def success_def
      ascii_def)

section \<open>Push events\<close>

text \<open>
  Claim C2.  For a push request that passes the validation: with exactly 100 commits the cap
  does not fire, the formatter runs its loop, and when the commits are well formed and the
  sinks succeed, the answer is 200 after both sinks have been called with the text; with
  more than 100 commits the formatter raises \<open>ValueError\<close> before building any text, the
  answer is 400 with the error code \<open>VALUE_ERROR\<close>, and after the validator and the
  formatter nothing is called.
\<close>

theorem commit_cap:
  assumes "valid_push req kvs cs"
  shows "(length cs = 100 \<longrightarrow>
            build_commit_info_text (str_builtin env) (JArr cs) =
              commit_loop (str_builtin env) [] cs \<and>
            (list_all well_formed_commit cs \<and> misskey_new env = None \<and>
             notes_create env (concat (map (commit_block (str_builtin env)) cs)) = None \<and>
             file_append env (concat (map (commit_block (str_builtin env)) cs)) = None \<longrightarrow>
             github_webhook env req =
               (success,
                [Validate (JObj kvs), BuildText (JArr cs), MisskeyNew,
                 NotesCreate (concat (map (commit_block (str_builtin env)) cs)),
                 FileAppend (concat (map (commit_block (str_builtin env)) cs))]))) \<and>
         (length cs > 100 \<longrightarrow>
            build_commit_info_text (str_builtin env) (JArr cs) =
              Inl (ValueError too_many_commits) \<and>
            http_status (fst (github_webhook env req)) = 400 \<and>
            body_error_code (fst (github_webhook env req)) = Some ''VALUE_ERROR'' \<and>
            snd (github_webhook env req) = [Validate (JObj kvs), BuildText (JArr cs)])"
proof (intro conjI impI)
  assume "length cs = 100"
  then show "build_commit_info_text (str_builtin env) (JArr cs) =
      commit_loop (str_builtin env) [] cs"
    by (simp add: build_array)
next
  let ?t = "concat (map (commit_block (str_builtin env)) cs)"
  assume len: "length cs = 100"
    and ok: "list_all well_formed_commit cs \<and> misskey_new env = None \<and>
      notes_create env ?t = None \<and> file_append env ?t = None"
  from len ok have b: "build_commit_info_text (str_builtin env) (JArr cs) = Inr ?t"
    by (simp add: build_array commit_loop_well_formed)
  show "github_webhook env req =
      (success, [Validate (JObj kvs), BuildText (JArr cs), MisskeyNew, NotesCreate ?t,
                 FileAppend ?t])"
    unfolding webhook_push_table [OF assms] b using ok by simp
next
  assume len: "length cs > 100"
  then show b: "build_commit_info_text (str_builtin env) (JArr cs) =
      Inl (ValueError too_many_commits)"
    by (simp add: build_array)
  show "http_status (fst (github_webhook env req)) = 400"
    unfolding webhook_push_table [OF assms] b by (simp add: push_error_response_status)
  show "body_error_code (fst (github_webhook env req)) = Some ''VALUE_ERROR''"
    unfolding webhook_push_table [OF assms] b by (simp add: push_error_response_code)
  show "snd (github_webhook env req) = [Validate (JObj kvs), BuildText (JArr cs)]"
    unfolding webhook_push_table [OF assms] b by simp
qed

theorem commit_cap_witness:
  "github_webhook sinks_ok (post_request ''push'' (Some (push_payload (replicate 100 commit_a)))) =
     (success,
      [Validate (JObj (push_fields (replicate 100 commit_a))),
       BuildText (JArr (replicate 100 commit_a)), MisskeyNew,
       NotesCreate (concat (map (commit_block example_str) (replicate 100 commit_a))),
       FileAppend (concat (map (commit_block example_str) (replicate 100 commit_a)))]) \<and>
   http_status (fst (github_webhook sinks_ok
     (post_request ''push'' (Some (push_payload (replicate 101 commit_a)))))) = 400 \<and>
   body_error_code (fst (github_webhook sinks_ok
     (post_request ''push'' (Some (push_payload (replicate 101 commit_a)))))) =
     Some ''VALUE_ERROR'' \<and>
   snd (github_webhook sinks_ok
     (post_request ''push'' (Some (push_payload (replicate 101 commit_a))))) =
     [Validate (JObj (push_fields (replicate 101 commit_a))),
      BuildText (JArr (replicate 101 commit_a))]"
proof -
  have wf: "list_all well_formed_commit (replicate 100 commit_a)"
    by (simp add: list_all_iff wf_a)
  have env: "str_builtin sinks_ok = example_str" "misskey_new sinks_ok = None"
    "notes_create sinks_ok t = None" "file_append sinks_ok t = None" for t
    by (simp_all add: sinks_ok_def)
  from commit_cap [OF valid_push_example, of "replicate 100 commit_a" sinks_ok]
    commit_cap [OF valid_push_example, of "replicate 101 commit_a" sinks_ok]
  show ?thesis
    by (simp add: wf env)
qed

text \<open>
  Claim C10.  For a push request that passes the validation and has an empty list of
  commits, the formatter returns the empty string, and when the sinks succeed both are called
  with the empty string, the notification first, and the answer is 200.
\<close>

theorem empty_push_reaches_both_sinks:
  assumes "valid_push req kvs []" and "misskey_new env = None"
    and "notes_create env [] = None" and "file_append env [] = None"
  shows "build_commit_info_text (str_builtin env) (JArr []) = Inr [] \<and>
         snd (github_webhook env req) =
           [Validate (JObj kvs), BuildText (JArr []), MisskeyNew, NotesCreate [], FileAppend []] \<and>
         fst (github_webhook env req) = success \<and>
         http_status (fst (github_webhook env req)) = 200"
proof -
  have b: "build_commit_info_text (str_builtin env) (JArr []) = Inr []"
    by (simp add: build_array)
  show ?thesis
    unfolding webhook_push_table [OF assms(1)] b
    by (simp add: assms(2-4) success_def)
qed

theorem empty_push_reaches_both_sinks_witness:
  "snd (github_webhook sinks_ok (post_request ''push'' (Some (push_payload [])))) =
     [Validate (JObj (push_fields [])), BuildText (JArr []), MisskeyNew, NotesCreate [],
      FileAppend []] \<and>
   fst (github_webhook sinks_ok (post_request ''push'' (Some (push_payload [])))) = success"
  using empty_push_reaches_both_sinks [OF valid_push_example, of sinks_ok]
  by (simp add: sinks_ok_def)

lemma build_one_a:
  "build_commit_info_text example_str (JArr [commit_a]) = Inr (commit_block example_str commit_a)"
  by (simp add: build_array commit_step_well_formed wf_a)

lemma post_fails_fields:
  "str_builtin (post_fails k m) = example_str" "misskey_new (post_fails k m) = None"
  "notes_create (post_fails k m) t = Some (k, m)" "str_lower (post_fails k m) = ascii_lower"
  by (simp_all add: sinks_ok_def post_fails_def)

text \<open>
  Claim C6.  For a push request that passes the validation, the calls are made in the order
  validator, formatter, notification sink, persistence sink, and the first failure ends them:
  when the formatter raises, no sink is called; otherwise the calls are an initial part of
  that sequence, the post is attempted exactly when the Misskey client could be made, the
  text is appended to the file exactly when the post succeeded, and the answer is the
  success response exactly when all three collaborator calls succeeded.
\<close>

theorem push_steps_in_order:
  assumes "valid_push req kvs cs"
  shows "(case build_commit_info_text (str_builtin env) (JArr cs) of
            Inl e \<Rightarrow>
              github_webhook env req =
                (push_error_response e, [Validate (JObj kvs), BuildText (JArr cs)])
          | Inr t \<Rightarrow>
              prefix [Validate (JObj kvs), BuildText (JArr cs), MisskeyNew]
                (snd (github_webhook env req)) \<and>
              prefix (snd (github_webhook env req))
                [Validate (JObj kvs), BuildText (JArr cs), MisskeyNew, NotesCreate t,
                 FileAppend t] \<and>
              (NotesCreate t \<in> set (snd (github_webhook env req)) \<longleftrightarrow>
                 misskey_new env = None) \<and>
              (FileAppend t \<in> set (snd (github_webhook env req)) \<longleftrightarrow>
                 misskey_new env = None \<and> notes_create env t = None) \<and>
              (fst (github_webhook env req) = success \<longleftrightarrow>
                 misskey_new env = None \<and> notes_create env t = None \<and>
                 file_append env t = None))"
proof (cases "build_commit_info_text (str_builtin env) (JArr cs)")
  case (Inl e)
  then show ?thesis
    unfolding webhook_push_table [OF assms] by simp
next
  case (Inr t)
  show ?thesis
  proof (cases "misskey_new env")
    case (Some km)
    then show ?thesis
      unfolding webhook_push_table [OF assms] Inr
      by (cases km) (simp add: push_error_response_neq_success)
  next
    case None
    note new = this
    show ?thesis
    proof (cases "notes_create env t")
      case (Some km)
      then show ?thesis
        unfolding webhook_push_table [OF assms] Inr
        by (cases km) (simp add: new push_error_response_neq_success)
    next
      case None
      note post = this
      show ?thesis
      proof (cases "file_append env t")
        case (Some km)
        then show ?thesis
          unfolding webhook_push_table [OF assms] Inr
          by (cases km) (simp add: new post push_error_response_neq_success)
      next
        case None
        then show ?thesis
          unfolding webhook_push_table [OF assms] Inr
          by (simp add: new post)
      qed
    qed
  qed
qed

theorem push_steps_in_order_witness:
  "NotesCreate (commit_block example_str commit_a) \<in>
     set (snd (github_webhook (post_fails IsOther (ascii ''boom''))
       (post_request ''push'' (Some (push_payload [commit_a]))))) \<and>
   FileAppend (commit_block example_str commit_a) \<notin>
     set (snd (github_webhook (post_fails IsOther (ascii ''boom''))
       (post_request ''push'' (Some (push_payload [commit_a]))))) \<and>
   fst (github_webhook (post_fails IsOther (ascii ''boom''))
       (post_request ''push'' (Some (push_payload [commit_a])))) \<noteq> success \<and>
   FileAppend (commit_block example_str commit_a) \<in>
     set (snd (github_webhook sinks_ok
       (post_request ''push'' (Some (push_payload [commit_a]))))) \<and>
   fst (github_webhook sinks_ok
       (post_request ''push'' (Some (push_payload [commit_a])))) = success"
proof -
  have env: "str_builtin sinks_ok = example_str" "misskey_new sinks_ok = None"
    "notes_create sinks_ok t = None" "file_append sinks_ok t = None"
    "str_builtin (post_fails k m) = example_str" "misskey_new (post_fails k m) = None"
    "notes_create (post_fails k m) t = Some (k, m)" for t k m
    by (simp_all add: sinks_ok_def post_fails_def)
  from push_steps_in_order [where env = sinks_ok, OF valid_push_example [of "[commit_a]"]]
    push_steps_in_order [where env = "post_fails IsOther (ascii ''boom'')",
      OF valid_push_example [of "[commit_a]"]]
  show ?thesis
    by (simp add: env build_one_a)
qed

lemma network_message:
  "str_contains (ascii ''network'') (ascii_lower (ascii ''Network is unreachable''))"
  by (simp add: ascii_def ascii_lower_def)

lemma permission_message:
  "\<not> str_contains (ascii ''network'') (ascii_lower (ascii ''PERMISSION denied'')) \<and>
   str_contains (ascii ''permission'') (ascii_lower (ascii ''PERMISSION denied''))"
  by (simp add: ascii_def ascii_lower_def)

lemma other_message:
  "\<not> str_contains (ascii ''network'') (ascii_lower (ascii ''boom'')) \<and>
   \<not> str_contains (ascii ''permission'') (ascii_lower (ascii ''boom''))"
  by (simp add: ascii_def ascii_lower_def)

lemma json_error_message:
  "\<not> str_contains (ascii ''network'')
       (ascii_lower (ascii ''Expecting value: line 1 column 1 (char 0)'')) \<and>
   \<not> str_contains (ascii ''permission'')
       (ascii_lower (ascii ''Expecting value: line 1 column 1 (char 0)''))"
  by (simp add: ascii_def ascii_lower_def)

lemma reset_message:
  "\<not> str_contains (ascii ''network'')
       (ascii_lower (ascii ''[Errno 104] Connection reset by peer'')) \<and>
   \<not> str_contains (ascii ''permission'')
       (ascii_lower (ascii ''[Errno 104] Connection reset by peer''))"
  by (simp add: ascii_def ascii_lower_def)

text \<open>
  Claim C7, as amended.  When \<open>notes_create\<close> fails while a push is handled, the
  lower-cased message of the failure is looked at first: with \<open>network\<close> in it the answer
  is 500 \<open>CONNECTION_ERROR\<close>; without \<open>network\<close> and with \<open>permission\<close> in it, 500
  \<open>PERMISSION_ERROR\<close>; with neither, the exception is raised again as it is, and the answer
  is 500 \<open>GENERAL_ERROR\<close> when its class is none of \<open>KeyError\<close>, \<open>ValueError\<close>,
  \<open>ConnectionError\<close> and \<open>PermissionError\<close>.  The file is not written.
\<close>

theorem notification_failure_classified:
  assumes "valid_push req kvs cs"
    and "build_commit_info_text (str_builtin env) (JArr cs) = Inr t"
    and "misskey_new env = None"
    and "notes_create env t = Some (k, m)"
  shows "(str_contains (ascii ''network'') (str_lower env m) \<longrightarrow>
            http_status (fst (github_webhook env req)) = 500 \<and>
            body_error_code (fst (github_webhook env req)) = Some ''CONNECTION_ERROR'') \<and>
         (\<not> str_contains (ascii ''network'') (str_lower env m) \<and>
          str_contains (ascii ''permission'') (str_lower env m) \<longrightarrow>
            http_status (fst (github_webhook env req)) = 500 \<and>
            body_error_code (fst (github_webhook env req)) = Some ''PERMISSION_ERROR'') \<and>
         (\<not> str_contains (ascii ''network'') (str_lower env m) \<and>
          \<not> str_contains (ascii ''permission'') (str_lower env m) \<and> k = IsOther \<longrightarrow>
            http_status (fst (github_webhook env req)) = 500 \<and>
            body_error_code (fst (github_webhook env req)) = Some ''GENERAL_ERROR'') \<and>
         snd (github_webhook env req) =
           [Validate (JObj kvs), BuildText (JArr cs), MisskeyNew, NotesCreate t]"
  unfolding webhook_push_table [OF assms(1)] assms(2)
  by (simp add: assms(3,4) push_error_response_status push_error_response_code)

theorem notification_failure_classified_witness:
  "body_error_code (fst (github_webhook (post_fails IsOther (ascii ''Network is unreachable''))
     (post_request ''push'' (Some (push_payload [commit_a]))))) = Some ''CONNECTION_ERROR'' \<and>
   body_error_code (fst (github_webhook (post_fails IsOther (ascii ''PERMISSION denied''))
     (post_request ''push'' (Some (push_payload [commit_a]))))) = Some ''PERMISSION_ERROR'' \<and>
   body_error_code (fst (github_webhook (post_fails IsOther (ascii ''boom''))
     (post_request ''push'' (Some (push_payload [commit_a]))))) = Some ''GENERAL_ERROR'' \<and>
   http_status (fst (github_webhook (post_fails IsOther (ascii ''boom''))
     (post_request ''push'' (Some (push_payload [commit_a]))))) = 500"
proof -
  have b: "build_commit_info_text (str_builtin (post_fails k m)) (JArr [commit_a]) =
      Inr (commit_block example_str commit_a)" for k m
    by (simp add: post_fails_fields build_one_a)
  from notification_failure_classified [OF valid_push_example b post_fails_fields(2)
      post_fails_fields(3), of IsOther "ascii ''Network is unreachable''"]
    notification_failure_classified [OF valid_push_example b post_fails_fields(2)
      post_fails_fields(3), of IsOther "ascii ''PERMISSION denied''"]
    notification_failure_classified [OF valid_push_example b post_fails_fields(2)
      post_fails_fields(3), of IsOther "ascii ''boom''"]
  show ?thesis
    by (simp add: post_fails_fields(4) network_message permission_message other_message)
qed

text \<open>
  The claim as stated, with the message as the sole criterion, fails: an exception raised
  again is classified by its class.  A \<open>ValueError\<close> of the client (a body that is no
  JSON) is answered with 400 \<open>VALUE_ERROR\<close>, and a \<open>ConnectionError\<close> whose message has
  no \<open>network\<close> in it with \<open>CONNECTION_ERROR\<close>.
\<close>

theorem notification_failure_counterexample:
  "\<not> str_contains (ascii ''network'')
       (ascii_lower (ascii ''Expecting value: line 1 column 1 (char 0)'')) \<and>
   \<not> str_contains (ascii ''permission'')
       (ascii_lower (ascii ''Expecting value: line 1 column 1 (char 0)'')) \<and>
   http_status (fst (github_webhook
     (post_fails IsValueError (ascii ''Expecting value: line 1 column 1 (char 0)''))
     (post_request ''push'' (Some (push_payload [commit_a]))))) = 400 \<and>
   body_error_code (fst (github_webhook
     (post_fails IsValueError (ascii ''Expecting value: line 1 column 1 (char 0)''))
     (post_request ''push'' (Some (push_payload [commit_a]))))) = Some ''VALUE_ERROR'' \<and>
   \<not> str_contains (ascii ''network'')
       (ascii_lower (ascii ''[Errno 104] Connection reset by peer'')) \<and>
   body_error_code (fst (github_webhook
     (post_fails IsConnectionError (ascii ''[Errno 104] Connection reset by peer''))
     (post_request ''push'' (Some (push_payload [commit_a]))))) = Some ''CONNECTION_ERROR''"
  unfolding webhook_push_table [OF valid_push_example]
  by (simp add: post_fails_fields build_one_a json_error_message reset_message
      push_error_response_status push_error_response_code)

lemma lacks_commit_field_step:
  assumes "lacks_commit_field c"
  shows "\<exists>k. commit_step py acc c = Inl (KeyError k)"
proof (cases c)
  case (JObj kvs)
  show ?thesis
  proof (cases "map_of kvs (ascii ''message'')")
    case None
    then show ?thesis by (simp add: JObj commit_step_def)
  next
    case (Some m)
    note m = this
    show ?thesis
    proof (cases "map_of kvs (ascii ''author'')")
      case None
      then show ?thesis by (simp add: JObj m commit_step_def)
    next
      case (Some a)
      with assms JObj m obtain akvs where "a = JObj akvs"
        and "map_of akvs (ascii ''name'') = None"
        by (cases a) (simp_all add: lacks_commit_field_def)
      with Some show ?thesis by (simp add: JObj m commit_step_def)
    qed
  qed
qed (use assms in \<open>simp_all add: lacks_commit_field_def\<close>)

lemma formats_loop:
  "list_all (formats py) pre \<Longrightarrow> \<exists>t. commit_loop py [] pre = Inr t"
proof (induction pre)
  case Nil
  show ?case by simp
next
  case (Cons p pre)
  then obtain b t where "commit_step py [] p = Inr b" and "commit_loop py [] pre = Inr t"
    by (auto simp: formats_def split: sum.splits)
  then show ?case
    using commit_loop_acc [of py b pre] by simp
qed

lemma commit_loop_key_error:
  assumes "list_all (formats py) pre" and "lacks_commit_field c"
  shows "\<exists>k. commit_loop py [] (pre @ c # post) = Inl (KeyError k)"
proof -
  from assms(1) obtain t where "commit_loop py [] pre = Inr t"
    using formats_loop by blast
  moreover from assms(2) obtain k where "commit_step py t c = Inl (KeyError k)"
    using lacks_commit_field_step by blast
  ultimately show ?thesis
    by (simp add: commit_loop_append)
qed

lemma formats_a: "formats example_str commit_a"
  by (simp add: formats_def commit_step_well_formed wf_a)

lemma no_author_lacks:
  "lacks_commit_field (JObj [(ascii ''message'', JStr (ascii ''fix''))])"
  by (simp add: lacks_commit_field_def ascii_def)

lemma build_over_cap:
  "build_commit_info_text example_str (JArr (replicate 101 (JObj []))) =
     Inl (ValueError too_many_commits)"
  by (simp add: build_array)

lemma build_string_author:
  "build_commit_info_text example_str
     (JArr [JObj [(ascii ''message'', JStr (ascii ''fix'')),
                  (ascii ''author'', JStr (ascii ''bob''))]]) = Inl TypeError"
  by (simp add: build_array commit_step_def ascii_def)

text \<open>
  Claim C8, as amended.  For a push request that passes the validation and has at most 100
  commits, when the first commit the formatter does not get through is an object without
  \<open>message\<close>, or with \<open>message\<close> and without \<open>author\<close>, or whose \<open>author\<close> is an
  object without \<open>name\<close>, the answer is 500 with the error code \<open>KEY_MISSING\<close>, and no
  sink is called.
\<close>

theorem missing_commit_field_is_key_missing:
  assumes "valid_push req kvs cs" and "length cs \<le> 100"
    and "cs = pre @ c # post"
    and "list_all (formats (str_builtin env)) pre"
    and "lacks_commit_field c"
  shows "http_status (fst (github_webhook env req)) = 500 \<and>
         body_error_code (fst (github_webhook env req)) = Some ''KEY_MISSING'' \<and>
         snd (github_webhook env req) = [Validate (JObj kvs), BuildText (JArr cs)]"
proof -
  from assms(4,5) obtain k where "commit_loop (str_builtin env) [] (pre @ c # post) =
      Inl (KeyError k)"
    using commit_loop_key_error by blast
  with assms(2,3) have b: "build_commit_info_text (str_builtin env) (JArr cs) =
      Inl (KeyError k)"
    by (simp add: build_array)
  show ?thesis
    unfolding webhook_push_table [OF assms(1)] b
    by (simp add: push_error_response_status push_error_response_code)
qed

theorem missing_commit_field_is_key_missing_witness:
  "http_status (fst (github_webhook sinks_ok (post_request ''push''
     (Some (push_payload
        ([commit_a] @ JObj [(ascii ''message'', JStr (ascii ''fix''))] # [commit_b])))))) = 500 \<and>
   body_error_code (fst (github_webhook sinks_ok (post_request ''push''
     (Some (push_payload
        ([commit_a] @ JObj [(ascii ''message'', JStr (ascii ''fix''))] # [commit_b])))))) =
     Some ''KEY_MISSING'' \<and>
   snd (github_webhook sinks_ok (post_request ''push''
     (Some (push_payload
        ([commit_a] @ JObj [(ascii ''message'', JStr (ascii ''fix''))] # [commit_b]))))) =
     [Validate (JObj (push_fields
        ([commit_a] @ JObj [(ascii ''message'', JStr (ascii ''fix''))] # [commit_b]))),
      BuildText (JArr ([commit_a] @ JObj [(ascii ''message'', JStr (ascii ''fix''))] # [commit_b]))]"
proof -
  have len: "length ([commit_a] @ JObj [(ascii ''message'', JStr (ascii ''fix''))] # [commit_b])
      \<le> 100"
    by simp
  have pre: "list_all (formats (str_builtin sinks_ok)) [commit_a]"
    by (simp add: sinks_ok_def formats_a)
  show ?thesis
    by (rule missing_commit_field_is_key_missing
        [OF valid_push_example len refl pre no_author_lacks])
qed

text \<open>
  The claim as stated fails: 101 commits that all lack \<open>message\<close> are answered with 400
  \<open>VALUE_ERROR\<close>, since the cap is checked first; and a commit whose \<open>author\<close> is a
  string, which has no \<open>name\<close>, raises \<open>TypeError\<close> and is answered with 500
  \<open>GENERAL_ERROR\<close>.
\<close>

theorem missing_commit_field_counterexample:
  "lacks_commit_field (JObj []) \<and>
   http_status (fst (github_webhook sinks_ok (post_request ''push''
     (Some (push_payload (replicate 101 (JObj []))))))) = 400 \<and>
   body_error_code (fst (github_webhook sinks_ok (post_request ''push''
     (Some (push_payload (replicate 101 (JObj []))))))) = Some ''VALUE_ERROR'' \<and>
   lookup (JStr (ascii ''bob'')) (ascii ''name'') = None \<and>
   body_error_code (fst (github_webhook sinks_ok (post_request ''push''
     (Some (push_payload [JObj [(ascii ''message'', JStr (ascii ''fix'')),
                                (ascii ''author'', JStr (ascii ''bob''))]]))))) =
     Some ''GENERAL_ERROR''"
  unfolding webhook_push_table [OF valid_push_example]
  by (simp add: sinks_ok_def build_over_cap build_string_author lacks_commit_field_def
      push_error_response_status push_error_response_code)

end
